theory Spec2Isabelle
  imports Main
begin

section \<open>Host values and strings\<close>

text \<open>
  The program is TypeScript. A JavaScript string is modelled as a \<open>string\<close> (a list of
  characters with codes 0..255), a context value as the tagged union below. Numbers are the
  integer-valued ones (safe integers); an object is the association list of its own
  properties in \<open>Object.keys\<close> order. Properties inherited from a prototype (methods such
  as \<open>toString\<close>) are not part of the model: a lookup sees own properties only.
\<close>

datatype jsval =
    JUndefined
  | JNull
  | JBool bool
  | JNum int
  | JStr string
  | JArr "jsval list"
  | JObj "(string \<times> jsval) list"

text \<open>Every exception the program can raise, as a value.\<close>

datatype error =
    PatternTooLong      \<comment> \<open>\<open>throw new TypeError('pattern is too long')\<close> in \<open>Matcher.parse\<close>\<close>
  | NotCallable         \<comment> \<open>calling \<open>conditionResolvers[c]\<close> when it is \<open>undefined\<close>\<close>
  | NullishBase         \<comment> \<open>reading a property of \<open>undefined\<close> or \<open>null\<close>\<close>
  | EmptyReduce         \<comment> \<open>\<open>reduce\<close> of an empty array with no initial value\<close>
  | Unmodelled          \<comment> \<open>a regular expression outside the modelled grammar\<close>

definition line_terminator :: "char \<Rightarrow> bool" where
  "line_terminator c = (c = CHR 0x0A \<or> c = CHR 0x0D)"

definition white_space :: "char \<Rightarrow> bool" where
  "white_space c = (c = CHR 0x09 \<or> c = CHR 0x0A \<or> c = CHR 0x0B \<or> c = CHR 0x0C
     \<or> c = CHR 0x0D \<or> c = CHR 0x20 \<or> c = CHR 0xA0)"

definition is_digit :: "char \<Rightarrow> bool" where
  "is_digit c = (c \<in> set ''0123456789'')"

definition digit_char :: "nat \<Rightarrow> char" where
  "digit_char n = ''0123456789'' ! (n mod 10)"

definition digit_val :: "char \<Rightarrow> nat" where
  "digit_val c = length (takeWhile (\<lambda>d. d \<noteq> c) ''0123456789'')"

fun dec_nat :: "nat \<Rightarrow> string" where
  "dec_nat n = (if n < 10 then [digit_char n] else dec_nat (n div 10) @ [digit_char n])"

declare dec_nat.simps [simp del]

definition dec_int :: "int \<Rightarrow> string" where
  "dec_int i = (if i < 0 then CHR ''-'' # dec_nat (nat (- i)) else dec_nat (nat i))"

fun join_with :: "string \<Rightarrow> string list \<Rightarrow> string" where
  "join_with sep [] = []"
| "join_with sep [x] = x"
| "join_with sep (x # y # ys) = x @ sep @ join_with sep (y # ys)"

text \<open>\<open>String(v)\<close>. An array is its elements joined by commas, \<open>undefined\<close> and \<open>null\<close>
  elements rendering as the empty string (\<open>Array.prototype.join\<close>).\<close>

fun to_string :: "jsval \<Rightarrow> string" where
  "to_string JUndefined = ''undefined''"
| "to_string JNull = ''null''"
| "to_string (JBool b) = (if b then ''true'' else ''false'')"
| "to_string (JNum i) = dec_int i"
| "to_string (JStr s) = s"
| "to_string (JArr xs) =
     join_with '','' (map (\<lambda>x. if x = JUndefined \<or> x = JNull then [] else to_string x) xs)"
| "to_string (JObj kvs) = ''[object Object]''"

fun truthy :: "jsval \<Rightarrow> bool" where
  "truthy JUndefined = False"
| "truthy JNull = False"
| "truthy (JBool b) = b"
| "truthy (JNum i) = (i \<noteq> 0)"
| "truthy (JStr s) = (s \<noteq> [])"
| "truthy (JArr xs) = True"
| "truthy (JObj kvs) = True"

fun nullish :: "jsval \<Rightarrow> bool" where
  "nullish JUndefined = True"
| "nullish JNull = True"
| "nullish v = False"

text \<open>An array index is a canonical decimal numeral: no sign, no leading zero.\<close>

definition array_index :: "string \<Rightarrow> nat option" where
  "array_index k =
     (if k \<noteq> [] \<and> list_all is_digit k \<and> (k = ''0'' \<or> hd k \<noteq> CHR ''0'')
      then Some (foldl (\<lambda>n c. 10 * n + digit_val c) 0 k) else None)"

text \<open>\<open>v[k]\<close> for a value \<open>v\<close> that is neither \<open>undefined\<close> nor \<open>null\<close>.\<close>

fun get_prop :: "jsval \<Rightarrow> string \<Rightarrow> jsval" where
  "get_prop (JObj kvs) k = (case map_of kvs k of Some v \<Rightarrow> v | None \<Rightarrow> JUndefined)"
| "get_prop (JArr xs) k =
     (if k = ''length'' then JNum (int (length xs))
      else case array_index k of
             Some n \<Rightarrow> if n < length xs then xs ! n else JUndefined
           | None \<Rightarrow> JUndefined)"
| "get_prop (JStr s) k =
     (if k = ''length'' then JNum (int (length s))
      else case array_index k of
             Some n \<Rightarrow> if n < length s then JStr [s ! n] else JUndefined
           | None \<Rightarrow> JUndefined)"
| "get_prop v k = JUndefined"

text \<open>\<open>s.split(d)\<close> for a one-character separator: never the empty list.\<close>

fun split_on :: "char \<Rightarrow> string \<Rightarrow> string list" where
  "split_on d [] = [[]]"
| "split_on d (c # cs) =
     (if c = d then [] # split_on d cs
      else case split_on d cs of
             [] \<Rightarrow> [[c]]
           | x # xs \<Rightarrow> (c # x) # xs)"

text \<open>\<open>s.trim()\<close>.\<close>

definition js_trim :: "string \<Rightarrow> string" where
  "js_trim s = rev (dropWhile white_space (rev (dropWhile white_space s)))"

section \<open>Path resolution and template interpolation\<close>

text \<open>
  The callback of the \<open>reduce\<close> in \<open>getValueFromPath\<close>:
  \<^verbatim>\<open>(key, nextChild) => data[key] ? data[key][nextChild] : undefined\<close>.
  The accumulator \<open>key\<close> is used as a property key of \<open>data\<close>, so it is converted to a
  string first.
\<close>

definition path_step :: "jsval \<Rightarrow> jsval \<Rightarrow> string \<Rightarrow> jsval" where
  "path_step data key nextChild =
     (let v = get_prop data (to_string key)
      in if truthy v then get_prop v nextChild else JUndefined)"

text \<open>
  \<open>reduce\<close> has no initial value: the accumulator starts as the first key, and the callback
  runs for the second key onwards. The callback reads \<open>data[key]\<close>, which raises when
  \<open>data\<close> is \<open>undefined\<close> or \<open>null\<close>.
\<close>

definition getValueFromPath :: "jsval \<Rightarrow> string \<Rightarrow> error + jsval" where
  "getValueFromPath data path =
     (case split_on CHR ''.'' path of
        [] \<Rightarrow> Inl EmptyReduce
      | k # ks \<Rightarrow>
          if ks \<noteq> [] \<and> nullish data then Inl NullishBase
          else let v = foldl (path_step data) (JStr k) ks
               in Inr (case v of
                         JArr xs \<Rightarrow> JStr (''{'' @ to_string v @ ''}'')
                       | _ \<Rightarrow> v))"

text \<open>
  The length of the match of \<open>reDelimiters = /\${([^}])*}/g\<close> at the head of a string, 0
  when there is none: a dollar sign, an opening brace, and everything up to the first
  closing brace.
\<close>

definition delim_match :: "string \<Rightarrow> nat" where
  "delim_match s =
     (case s of
        c1 # c2 # rest \<Rightarrow>
          if c1 = CHR ''$'' \<and> c2 = CHR ''{'' \<and> CHR ''}'' \<in> set rest
          then 3 + length (takeWhile (\<lambda>c. c \<noteq> CHR ''}'') rest) else 0
      | _ \<Rightarrow> 0)"

text \<open>\<open>str.replace(reDelimiters, match => ...)\<close>: matches are found from left to right and
  do not overlap; the callback computes \<open>path = match.substr(2, match.length - 3)\<close>.\<close>

function replace_delims :: "jsval \<Rightarrow> string \<Rightarrow> error + string" where
  "replace_delims context [] = Inr []"
| "replace_delims context (c # cs) =
     (let n = delim_match (c # cs) in
      if n = 0 then
        (case replace_delims context cs of
           Inl e \<Rightarrow> Inl e
         | Inr r \<Rightarrow> Inr (c # r))
      else
        (let path = take (n - 3) (drop 2 (take n (c # cs))) in
         case getValueFromPath context path of
           Inl e \<Rightarrow> Inl e
         | Inr v \<Rightarrow>
             (case replace_delims context (drop n (c # cs)) of
                Inl e \<Rightarrow> Inl e
              | Inr r \<Rightarrow> Inr (to_string v @ r))))"
  by pat_completeness auto
termination
  by (relation "measure (\<lambda>(context, s). length s)") auto

text \<open>
  The length of the match of \<open>trim = / +(?= )|^\s+|\s+$/g\<close> at the head of a string, 0 when
  there is none; \<open>at_start\<close> says that the head is the start of the whole input. The
  alternatives are tried in order: a run of spaces up to, not including, its last space;
  the leading white space; white space reaching the end.
\<close>

definition trim_match :: "bool \<Rightarrow> string \<Rightarrow> nat" where
  "trim_match at_start s =
     (if 2 \<le> length (takeWhile (\<lambda>c. c = CHR '' '') s)
        then length (takeWhile (\<lambda>c. c = CHR '' '') s) - 1
      else if at_start \<and> s \<noteq> [] \<and> white_space (hd s)
        then length (takeWhile white_space s)
      else if s \<noteq> [] \<and> list_all white_space s
        then length s
      else 0)"

function replace_trim :: "bool \<Rightarrow> string \<Rightarrow> string" where
  "replace_trim at_start [] = []"
| "replace_trim at_start (c # cs) =
     (let n = trim_match at_start (c # cs) in
      if n = 0 then c # replace_trim False cs
      else replace_trim False (drop n (c # cs)))"
  by pat_completeness auto
termination
  by (relation "measure (\<lambda>(at_start, s). length s)") auto

definition specialTrim :: "string \<Rightarrow> string" where
  "specialTrim str = replace_trim True str"

definition applyContext :: "string \<Rightarrow> jsval \<Rightarrow> error + string" where
  "applyContext str context =
     (if \<not> truthy context then Inr str
      else case replace_delims context str of
             Inl e \<Rightarrow> Inl e
           | Inr r \<Rightarrow> Inr (specialTrim r))"

section \<open>Brace expansion\<close>

text \<open>\<open>str.indexOf(c, from)\<close> for a one-character needle: the first index at or after
  \<open>from\<close> that holds \<open>c\<close>, or -1.\<close>

primrec index_in :: "char \<Rightarrow> string \<Rightarrow> nat \<Rightarrow> int" where
  "index_in c [] n = - 1"
| "index_in c (x # xs) n = (if x = c then int n else index_in c xs (Suc n))"

definition indexOf :: "string \<Rightarrow> char \<Rightarrow> nat \<Rightarrow> int" where
  "indexOf str c from = index_in c (drop from str) from"

text \<open>\<open>str.slice(a, b)\<close> and \<open>str.slice(a)\<close> for indices that are not negative.\<close>

definition slice :: "string \<Rightarrow> nat \<Rightarrow> nat \<Rightarrow> string" where
  "slice str a b = take (b - a) (drop a str)"

definition slice_from :: "string \<Rightarrow> nat \<Rightarrow> string" where
  "slice_from str a = drop a str"

text \<open>\<open>range(a, b, str)\<close>; both delimiters are one-character strings at the only call.\<close>

definition range' :: "char \<Rightarrow> char \<Rightarrow> string \<Rightarrow> int \<times> int" where
  "range' a b str =
     (let left = indexOf str a 0;
          right = indexOf str b (nat (left + 1))
      in if left \<ge> 0 \<and> right > 0 then (left, right) else (- 1, - 1))"

record Balance =
  start :: int
  end' :: int
  pre :: string
  body :: string
  post :: string

definition balanced :: "char \<Rightarrow> char \<Rightarrow> string \<Rightarrow> Balance" where
  "balanced a b str =
     (let r = range' a b str in
      \<lparr> start = fst r,
        end' = snd r,
        pre = (if fst r \<ge> 0 then slice str 0 (nat (fst r)) else []),
        body = (if fst r \<ge> 0 then slice str (nat (fst r) + 1) (nat (snd r)) else []),
        post = (if fst r \<ge> 0 then slice_from str (nat (snd r) + 1) else []) \<rparr>)"

text \<open>\<open>/\$$/.test(s)\<close>: the string ends with a dollar sign.\<close>

definition ends_with_dollar :: "string \<Rightarrow> bool" where
  "ends_with_dollar s = (s \<noteq> [] \<and> last s = CHR ''$'')"

function expand :: "string \<Rightarrow> bool \<Rightarrow> string list" where
  "expand str isTop =
     (let balance = balanced CHR ''{'' CHR ''}'' str in
      if start balance < 0 \<or> ends_with_dollar (pre balance) then [str]
      else
        let parts = (if body balance = [] then [[]] else split_on CHR '','' (body balance));
            postParts = (if post balance \<noteq> [] then expand (post balance) False else [[]])
        in concat (map (\<lambda>part.
             concat (map (\<lambda>postPart.
               let expansion = pre balance @ part @ postPart
               in if \<not> isTop \<or> expansion \<noteq> [] then [expansion] else []) postParts)) parts))"
  by pat_completeness auto
termination
proof (relation "measure (\<lambda>(str, isTop). length str)")
  show "wf (measure (\<lambda>(str, isTop). length str))"
    by simp
next
  fix str :: string and isTop :: bool and x :: Balance
  assume "x = balanced CHR ''{'' CHR ''}'' str" and "post x \<noteq> []"
  then have "length (post x) < length str"
    by (auto simp: balanced_def Let_def slice_from_def split: if_splits)
  then show "((post x, False), (str, isTop)) \<in> measure (\<lambda>(str, isTop). length str)"
    by simp
qed

declare expand.simps [simp del]

text \<open>\<open>pattern.match(/{.*}/)\<close>: an opening brace and, later on the same line, a closing one.\<close>

fun has_brace_group :: "string \<Rightarrow> bool" where
  "has_brace_group [] = False"
| "has_brace_group (c # cs) =
     ((c = CHR ''{'' \<and> CHR ''}'' \<in> set (takeWhile (\<lambda>d. \<not> line_terminator d) cs))
      \<or> has_brace_group cs)"

definition backslash :: char where
  "backslash = CHR 0x5C"

definition braceExpand :: "string \<Rightarrow> string list" where
  "braceExpand pattern =
     (if \<not> has_brace_group pattern then [pattern]
      else expand (if take 2 pattern = ''{}''
                   then [backslash, CHR ''{'', backslash, CHR ''}''] @ drop 2 pattern
                   else pattern) True)"

section \<open>The host's regular expressions\<close>

text \<open>
  \<open>Matcher.parse\<close> builds the source text of a regular expression and hands it to the
  host's \<open>RegExp\<close> constructor. The constructor and \<open>String.prototype.match\<close> are modelled
  for a fragment of the ECMAScript grammar (no flags): pattern characters, \<open>.\<close>, character
  classes, the class escapes \<open>\d \D \w \W \s \S\<close>, the control escapes, identity escapes of
  characters that are no letters or digits, \<open>^\<close>, \<open>$\<close>, \<open>\b\<close>, \<open>\B\<close>, groups, lookaheads,
  alternation and the quantifiers \<open>*\<close>, \<open>+\<close>, \<open>?\<close> (greedy or lazy). Compilation has three
  outcomes: a \<open>SyntaxError\<close> of the host, a compiled expression, or \<open>NotModelled\<close> for a
  source that uses anything else (back references, braced quantifiers, named groups,
  lookbehind, other escapes).

  Only whether a match exists is observed (\<open>Boolean(str.match(re))\<close>), so a compiled
  expression is kept as its syntax tree and a lazy quantifier is the same tree as the
  greedy one: without back references the two differ in which match is found, not in
  whether there is one.
\<close>

datatype 'a compiled = SyntaxError | NotModelled | Compiled 'a

datatype esc_class = Digit | NotDigit | Word | NotWord | Space | NotSpace

datatype class_item = CChar char | CRange char char | CEsc esc_class

datatype rx =
    RChar char
  | RAny
  | REsc esc_class
  | RClass bool "class_item list"
  | RBol
  | REol
  | RWordB bool
  | RLook bool rx
  | REmpty
  | RSeq rx rx
  | RAlt rx rx
  | RStar rx
  | RPlus rx
  | ROpt rx

datatype quant = QStar | QPlus | QOpt

datatype group_kind = Capture | NonCapture | Lookahead bool

datatype token =
    TAtom rx
  | TAssert rx
  | TQuant quant
  | TOpen group_kind
  | TClose
  | TBar

subsection \<open>Matching\<close>

definition is_alnum :: "char \<Rightarrow> bool" where
  "is_alnum c =
     (c \<in> set ''abcdefghijklmnopqrstuvwxyzABCDEFGHIJKLMNOPQRSTUVWXYZ0123456789'')"

definition word_char :: "char \<Rightarrow> bool" where
  "word_char c = (is_alnum c \<or> c = CHR ''_'')"

fun in_esc_class :: "esc_class \<Rightarrow> char \<Rightarrow> bool" where
  "in_esc_class Digit c = is_digit c"
| "in_esc_class NotDigit c = (\<not> is_digit c)"
| "in_esc_class Word c = word_char c"
| "in_esc_class NotWord c = (\<not> word_char c)"
| "in_esc_class Space c = white_space c"
| "in_esc_class NotSpace c = (\<not> white_space c)"

fun in_class_item :: "char \<Rightarrow> class_item \<Rightarrow> bool" where
  "in_class_item c (CChar x) = (c = x)"
| "in_class_item c (CRange lo hi) =
     ((of_char lo :: nat) \<le> of_char c \<and> (of_char c :: nat) \<le> of_char hi)"
| "in_class_item c (CEsc e) = in_esc_class e c"

text \<open>One character at position \<open>i\<close> that satisfies \<open>p\<close>.\<close>

definition one_char :: "(char \<Rightarrow> bool) \<Rightarrow> string \<Rightarrow> nat \<Rightarrow> nat list" where
  "one_char p s i = (if i < length s \<and> p (s ! i) then [Suc i] else [])"

definition word_at :: "string \<Rightarrow> nat \<Rightarrow> bool" where
  "word_at s i = (i < length s \<and> word_char (s ! i))"

definition word_boundary :: "string \<Rightarrow> nat \<Rightarrow> bool" where
  "word_boundary s i = ((0 < i \<and> word_at s (i - 1)) \<noteq> word_at s i)"

text \<open>
  The positions a repetition can stop at, from position \<open>i\<close> of an input of length \<open>n\<close>,
  when one round from \<open>j\<close> can stop at the positions \<open>f j\<close>. A round that does not
  advance is not repeated (the empty check of the host's repeat matcher).
\<close>

function star_ends :: "(nat \<Rightarrow> nat list) \<Rightarrow> nat \<Rightarrow> nat \<Rightarrow> nat list" where
  "star_ends f n i = i # concat (map (star_ends f n) (filter (\<lambda>j. i < j \<and> j \<le> n) (f i)))"
  by pat_completeness auto
termination
  by (relation "measure (\<lambda>(f, n, i). n - i)") auto

declare star_ends.simps [simp del]

text \<open>\<open>rx_ends r s i\<close>: the positions where a match of \<open>r\<close> that starts at position \<open>i\<close> of
  \<open>s\<close> can end.\<close>

primrec rx_ends :: "rx \<Rightarrow> string \<Rightarrow> nat \<Rightarrow> nat list" where
  "rx_ends (RChar c) s i = one_char (\<lambda>x. x = c) s i"
| "rx_ends RAny s i = one_char (\<lambda>x. \<not> line_terminator x) s i"
| "rx_ends (REsc e) s i = one_char (in_esc_class e) s i"
| "rx_ends (RClass neg items) s i = one_char (\<lambda>x. list_ex (in_class_item x) items \<noteq> neg) s i"
| "rx_ends RBol s i = (if i = 0 then [i] else [])"
| "rx_ends REol s i = (if i = length s then [i] else [])"
| "rx_ends (RWordB b) s i = (if word_boundary s i = b then [i] else [])"
| "rx_ends (RLook b r) s i = (if (rx_ends r s i \<noteq> []) = b then [i] else [])"
| "rx_ends REmpty s i = [i]"
| "rx_ends (RSeq r1 r2) s i = concat (map (rx_ends r2 s) (rx_ends r1 s i))"
| "rx_ends (RAlt r1 r2) s i = rx_ends r1 s i @ rx_ends r2 s i"
| "rx_ends (RStar r) s i = star_ends (rx_ends r s) (length s) i"
| "rx_ends (RPlus r) s i = concat (map (star_ends (rx_ends r s) (length s)) (rx_ends r s i))"
| "rx_ends (ROpt r) s i = i # rx_ends r s i"

text \<open>\<open>Boolean(str.match(re))\<close>: a match may start at any position.\<close>

definition rx_test :: "rx \<Rightarrow> string \<Rightarrow> bool" where
  "rx_test r s = list_ex (\<lambda>i. rx_ends r s i \<noteq> []) [0..<Suc (length s)]"

subsection \<open>Compiling a source text\<close>

fun class_escape :: "char \<Rightarrow> esc_class option" where
  "class_escape c =
     (if c = CHR ''d'' then Some Digit else if c = CHR ''D'' then Some NotDigit
      else if c = CHR ''w'' then Some Word else if c = CHR ''W'' then Some NotWord
      else if c = CHR ''s'' then Some Space else if c = CHR ''S'' then Some NotSpace
      else None)"

fun control_escape :: "char \<Rightarrow> char option" where
  "control_escape c =
     (if c = CHR ''f'' then Some (CHR 0x0C) else if c = CHR ''n'' then Some (CHR 0x0A)
      else if c = CHR ''r'' then Some (CHR 0x0D) else if c = CHR ''t'' then Some (CHR 0x09)
      else if c = CHR ''v'' then Some (CHR 0x0B) else None)"

text \<open>The token of \<open>\d\<close> outside a class, for the character \<open>d\<close> after the backslash.\<close>

definition lex_escape :: "char \<Rightarrow> token compiled" where
  "lex_escape d =
     (case class_escape d of
        Some e \<Rightarrow> Compiled (TAtom (REsc e))
      | None \<Rightarrow>
          if d = CHR ''b'' then Compiled (TAssert (RWordB True))
          else if d = CHR ''B'' then Compiled (TAssert (RWordB False))
          else (case control_escape d of
                  Some x \<Rightarrow> Compiled (TAtom (RChar x))
                | None \<Rightarrow> if is_alnum d then NotModelled else Compiled (TAtom (RChar d))))"

text \<open>One atom of a class, that starts with \<open>c\<close> and goes on in \<open>cs\<close>: the atom, and how
  many characters of \<open>cs\<close> it takes.\<close>

definition read_class_atom :: "char \<Rightarrow> string \<Rightarrow> (class_item \<times> nat) compiled" where
  "read_class_atom c cs =
     (if c \<noteq> backslash then Compiled (CChar c, 0)
      else case cs of
             [] \<Rightarrow> SyntaxError
           | d # ds \<Rightarrow>
               (case class_escape d of
                  Some e \<Rightarrow> Compiled (CEsc e, 1)
                | None \<Rightarrow>
                    if d = CHR ''b'' then Compiled (CChar (CHR 0x08), 1)
                    else (case control_escape d of
                            Some x \<Rightarrow> Compiled (CChar x, 1)
                          | None \<Rightarrow>
                              if is_alnum d then NotModelled else Compiled (CChar d, 1))))"

definition class_add :: "class_item \<Rightarrow> nat \<Rightarrow> (class_item list \<times> nat) compiled
    \<Rightarrow> (class_item list \<times> nat) compiled" where
  "class_add a k r =
     (case r of
        Compiled (items, n) \<Rightarrow> Compiled (a # items, k + n)
      | SyntaxError \<Rightarrow> SyntaxError
      | NotModelled \<Rightarrow> NotModelled)"

text \<open>
  The body of a class, after \<open>[\<close> or \<open>[^\<close>: its items up to the first \<open>]\<close>, and how many
  characters it takes with the \<open>]\<close>. A range is an atom, a dash and an atom; a dash that
  is first, or last before the \<open>]\<close>, stands for itself. A range whose bounds are out of
  order is a \<open>SyntaxError\<close>; one with a class escape as a bound is not modelled.
\<close>

fun scan_class :: "string \<Rightarrow> (class_item list \<times> nat) compiled" where
  "scan_class [] = SyntaxError"
| "scan_class (c # cs) =
     (if c = CHR '']'' then Compiled ([], 1)
      else case read_class_atom c cs of
             SyntaxError \<Rightarrow> SyntaxError
           | NotModelled \<Rightarrow> NotModelled
           | Compiled (a, e) \<Rightarrow>
               if 2 \<le> length (drop e cs) \<and> cs ! e = CHR ''-'' \<and> cs ! (e + 1) \<noteq> CHR '']'' then
                 (case read_class_atom (cs ! (e + 1)) (drop (e + 2) cs) of
                    SyntaxError \<Rightarrow> SyntaxError
                  | NotModelled \<Rightarrow> NotModelled
                  | Compiled (b, e2) \<Rightarrow>
                      (case (a, b) of
                         (CChar lo, CChar hi) \<Rightarrow>
                           if (of_char lo :: nat) \<le> of_char hi
                           then class_add (CRange lo hi) (e + e2 + 3)
                                  (scan_class (drop (e + e2 + 2) cs))
                           else SyntaxError
                       | _ \<Rightarrow> NotModelled))
               else class_add a (e + 1) (scan_class (drop e cs)))"

definition tok_cons :: "token compiled \<Rightarrow> token list compiled \<Rightarrow> token list compiled" where
  "tok_cons t r =
     (case t of
        SyntaxError \<Rightarrow> SyntaxError
      | NotModelled \<Rightarrow> NotModelled
      | Compiled x \<Rightarrow>
          (case r of
             Compiled xs \<Rightarrow> Compiled (x # xs)
           | SyntaxError \<Rightarrow> SyntaxError
           | NotModelled \<Rightarrow> NotModelled))"

fun quant_of :: "char \<Rightarrow> quant" where
  "quant_of c = (if c = CHR ''*'' then QStar else if c = CHR ''+'' then QPlus else QOpt)"

text \<open>
  The tokens of a source text. After \<open>(?\<close> only \<open>:\<close>, \<open>=\<close> and \<open>!\<close> are modelled; a \<open>?\<close>
  right after a quantifier makes it lazy and is dropped; \<open>{\<close> before a digit may open a
  braced quantifier and is not modelled, any other \<open>{\<close>, and every \<open>}\<close> and \<open>]\<close>, is a
  pattern character.
\<close>

fun rx_lex :: "string \<Rightarrow> token list compiled" where
  "rx_lex [] = Compiled []"
| "rx_lex (c # cs) =
     (if c = backslash then
        (case cs of
           [] \<Rightarrow> SyntaxError
         | d # ds \<Rightarrow> tok_cons (lex_escape d) (rx_lex ds))
      else if c = CHR ''['' then
        (let neg = (take 1 cs = ''^''); k = (if neg then 1 else 0) in
         case scan_class (drop k cs) of
           SyntaxError \<Rightarrow> SyntaxError
         | NotModelled \<Rightarrow> NotModelled
         | Compiled (items, n) \<Rightarrow>
             tok_cons (Compiled (TAtom (RClass neg items))) (rx_lex (drop (k + n) cs)))
      else if c = CHR ''('' then
        (if take 1 cs \<noteq> ''?'' then tok_cons (Compiled (TOpen Capture)) (rx_lex cs)
         else if take 2 cs = ''?:'' then
           tok_cons (Compiled (TOpen NonCapture)) (rx_lex (drop 2 cs))
         else if take 2 cs = ''?='' then
           tok_cons (Compiled (TOpen (Lookahead True))) (rx_lex (drop 2 cs))
         else if take 2 cs = ''?!'' then
           tok_cons (Compiled (TOpen (Lookahead False))) (rx_lex (drop 2 cs))
         else NotModelled)
      else if c = CHR '')'' then tok_cons (Compiled TClose) (rx_lex cs)
      else if c = CHR ''|'' then tok_cons (Compiled TBar) (rx_lex cs)
      else if c = CHR ''*'' \<or> c = CHR ''+'' \<or> c = CHR ''?'' then
        tok_cons (Compiled (TQuant (quant_of c)))
          (rx_lex (if take 1 cs = ''?'' then drop 1 cs else cs))
      else if c = CHR ''{'' then
        (if cs \<noteq> [] \<and> is_digit (hd cs) then NotModelled
         else tok_cons (Compiled (TAtom (RChar c))) (rx_lex cs))
      else if c = CHR ''^'' then tok_cons (Compiled (TAssert RBol)) (rx_lex cs)
      else if c = CHR ''$'' then tok_cons (Compiled (TAssert REol)) (rx_lex cs)
      else if c = CHR ''.'' then tok_cons (Compiled (TAtom RAny)) (rx_lex cs)
      else tok_cons (Compiled (TAtom (RChar c))) (rx_lex cs))"

text \<open>
  The parser keeps, for the group it is in, the alternatives that are complete, the terms
  of the alternative it is reading, and whether the last term may take a quantifier (an
  atom, a group or a lookahead may; an assertion, a quantified term or nothing may not).
  The groups around it wait on a stack.
\<close>

type_synonym frame = "rx list \<times> rx list \<times> bool"

fun seq_of :: "rx list \<Rightarrow> rx" where
  "seq_of [] = REmpty"
| "seq_of (r # rs) = RSeq r (seq_of rs)"

fun alt_of :: "rx list \<Rightarrow> rx" where
  "alt_of [] = REmpty"
| "alt_of [r] = r"
| "alt_of (r # rs) = RAlt r (alt_of rs)"

definition close_frame :: "rx list \<Rightarrow> rx list \<Rightarrow> rx" where
  "close_frame alts terms = alt_of (alts @ [seq_of terms])"

fun apply_quant :: "quant \<Rightarrow> rx \<Rightarrow> rx" where
  "apply_quant QStar r = RStar r"
| "apply_quant QPlus r = RPlus r"
| "apply_quant QOpt r = ROpt r"

fun wrap_group :: "group_kind \<Rightarrow> rx \<Rightarrow> rx" where
  "wrap_group Capture r = r"
| "wrap_group NonCapture r = r"
| "wrap_group (Lookahead b) r = RLook b r"

fun rx_parse :: "(frame \<times> group_kind) list \<Rightarrow> frame \<Rightarrow> token list \<Rightarrow> rx compiled" where
  "rx_parse stack (alts, terms, q) [] =
     (if stack = [] then Compiled (close_frame alts terms) else SyntaxError)"
| "rx_parse stack (alts, terms, q) (TAtom a # ts) =
     rx_parse stack (alts, terms @ [a], True) ts"
| "rx_parse stack (alts, terms, q) (TAssert a # ts) =
     rx_parse stack (alts, terms @ [a], False) ts"
| "rx_parse stack (alts, terms, q) (TQuant qn # ts) =
     (if q then rx_parse stack (alts, butlast terms @ [apply_quant qn (last terms)], False) ts
      else SyntaxError)"
| "rx_parse stack (alts, terms, q) (TBar # ts) =
     rx_parse stack (alts @ [seq_of terms], [], False) ts"
| "rx_parse stack (alts, terms, q) (TOpen k # ts) =
     rx_parse (((alts, terms, q), k) # stack) ([], [], False) ts"
| "rx_parse stack (alts, terms, q) (TClose # ts) =
     (case stack of
        [] \<Rightarrow> SyntaxError
      | ((alts', terms', q'), k) # stack' \<Rightarrow>
          rx_parse stack' (alts', terms' @ [wrap_group k (close_frame alts terms)], True) ts)"

text \<open>\<open>new RegExp(source)\<close>.\<close>

definition regexp_compile :: "string \<Rightarrow> rx compiled" where
  "regexp_compile source =
     (case rx_lex source of
        SyntaxError \<Rightarrow> SyntaxError
      | NotModelled \<Rightarrow> NotModelled
      | Compiled ts \<Rightarrow> rx_parse [] ([], [], False) ts)"

section \<open>Matcher\<close>

text \<open>An element of \<open>Matcher.set\<close>: a string or a \<open>RegExp\<close>.\<close>

datatype matcher_alt = AString string | ARegExp rx

record Matcher =
  pattern :: string
  set' :: "matcher_alt list"
  empty :: bool
  hasSpecialCharacter :: bool

text \<open>
  The loop of \<open>parse\<close> over the characters of the pattern; its state is the field
  \<open>hasSpecialCharacter\<close> and the text \<open>re\<close>. (\<open>charAt(i)\<close> is a one-character string for
  every \<open>i < len\<close>, so the loop reads every character.)
\<close>

fun parse_loop :: "string \<Rightarrow> bool \<times> string \<Rightarrow> bool \<times> string" where
  "parse_loop [] (flag, re) = (flag, re)"
| "parse_loop (c # cs) (flag, re) =
     (if c = CHR ''*'' then parse_loop cs (True, re @ ''[^/]*?'')
      else parse_loop cs (flag, re @ [c]))"

text \<open>\<open>pattern.replace(/\\(.)/g, '$1')\<close>: a backslash and a character that is no line
  terminator become the character.\<close>

fun unescape :: "string \<Rightarrow> string" where
  "unescape (c # d # cs) =
     (if c = backslash \<and> \<not> line_terminator d then d # unescape cs
      else c # unescape (d # cs))"
| "unescape cs = cs"

text \<open>
  \<open>parse\<close> reads and writes the field \<open>hasSpecialCharacter\<close>: the model takes its value
  and returns the new one with the result. The \<open>try\<close> block catches the \<open>SyntaxError\<close> of
  the constructor and returns \<open>new RegExp('$.')\<close>.
\<close>

definition parse :: "bool \<Rightarrow> string \<Rightarrow> error + (bool \<times> matcher_alt)" where
  "parse flag0 pat =
     (if int (length pat) > 1024 * 64 then Inl PatternTooLong
      else if pat = [] then Inr (flag0, AString [])
      else
        let (flag, re0) = parse_loop pat (flag0, []);
            re = (if re0 \<noteq> [] \<and> flag then ''(?=.)'' @ re0 else re0)
        in if \<not> flag then Inr (flag, AString (unescape pat))
           else case regexp_compile (''^'' @ re @ ''$'') of
                  Compiled regExp \<Rightarrow> Inr (flag, ARegExp regExp)
                | NotModelled \<Rightarrow> Inl Unmodelled
                | SyntaxError \<Rightarrow>
                    (case regexp_compile ''$.'' of
                       Compiled never \<Rightarrow> Inr (flag, ARegExp never)
                     | _ \<Rightarrow> Inl Unmodelled))"

text \<open>\<open>set.map(val => this.parse(val))\<close>, from left to right.\<close>

fun parse_all :: "bool \<Rightarrow> string list \<Rightarrow> error + (bool \<times> matcher_alt list)" where
  "parse_all flag [] = Inr (flag, [])"
| "parse_all flag (v # vs) =
     (case parse flag v of
        Inl e \<Rightarrow> Inl e
      | Inr (flag', a) \<Rightarrow>
          (case parse_all flag' vs of
             Inl e \<Rightarrow> Inl e
           | Inr (flag'', as) \<Rightarrow> Inr (flag'', a # as)))"

text \<open>\<open>Boolean(s)\<close> for an element of the set: only the empty string is falsy.\<close>

fun alt_truthy :: "matcher_alt \<Rightarrow> bool" where
  "alt_truthy (AString s) = (s \<noteq> [])"
| "alt_truthy (ARegExp r) = True"

text \<open>The constructor.\<close>

definition new_Matcher :: "string \<Rightarrow> error + Matcher" where
  "new_Matcher pattern0 =
     (let p = js_trim pattern0 in
      case parse_all False (braceExpand p) of
        Inl e \<Rightarrow> Inl e
      | Inr (flag, alts) \<Rightarrow>
          Inr \<lparr> pattern = p,
                set' = filter alt_truthy alts,
                empty = (p = []),
                hasSpecialCharacter = flag \<rparr>)"

fun matchOne :: "string \<Rightarrow> matcher_alt \<Rightarrow> bool" where
  "matchOne str (AString p) = (if p = [] then False else str = p)"
| "matchOne str (ARegExp r) = rx_test r str"

definition match :: "Matcher \<Rightarrow> string \<Rightarrow> bool" where
  "match m str = (if empty m then str = [] else list_ex (matchOne str) (set' m))"

text \<open>\<open>new Matcher(p).match(str)\<close>.\<close>

definition matcher_test :: "string \<Rightarrow> string \<Rightarrow> error + bool" where
  "matcher_test p str =
     (case new_Matcher p of
        Inl e \<Rightarrow> Inl e
      | Inr m \<Rightarrow> Inr (match m str))"

section \<open>Statement\<close>

datatype StatementEffect = Allow | Deny

type_synonym Condition = "(string \<times> jsval) list"

type_synonym StatementConditions = "(string \<times> Condition) list"

type_synonym Resolver = "jsval \<Rightarrow> jsval \<Rightarrow> bool"

type_synonym ConditionResolver = "string \<Rightarrow> Resolver option"



record Statement =
  effect :: StatementEffect
  resource :: "string list"
  action :: "string list"
  condition :: "StatementConditions option"



text \<open>\<open>xs.some(f)\<close> and \<open>xs.every(f)\<close> for a callback that may raise: both stop at the first
  element that decides the result, and at the first exception.\<close>

fun some' :: "('a \<Rightarrow> error + bool) \<Rightarrow> 'a list \<Rightarrow> error + bool" where
  "some' f [] = Inr False"
| "some' f (x # xs) =
     (case f x of
        Inl e \<Rightarrow> Inl e
      | Inr b \<Rightarrow> if b then Inr True else some' f xs)"

fun every' :: "('a \<Rightarrow> error + bool) \<Rightarrow> 'a list \<Rightarrow> error + bool" where
  "every' f [] = Inr True"
| "every' f (x # xs) =
     (case f x of
        Inl e \<Rightarrow> Inl e
      | Inr b \<Rightarrow> if b then every' f xs else Inr False)"

text \<open>\<open>new Matcher(applyContext(p, context)).match(str)\<close>.\<close>

definition pattern_matches :: "jsval \<Rightarrow> string \<Rightarrow> string \<Rightarrow> error + bool" where
  "pattern_matches context str p =
     (case applyContext p context of
        Inl e \<Rightarrow> Inl e
      | Inr p' \<Rightarrow> matcher_test p' str)"

text \<open>The call \<open>conditionResolvers[c](getValueFromPath(context, path), this.condition[c][path])\<close>
  for one path of one condition: the arguments are evaluated before the call is made.\<close>

definition resolve_one :: "ConditionResolver \<Rightarrow> jsval \<Rightarrow> string \<Rightarrow> Condition
    \<Rightarrow> string \<Rightarrow> error + bool" where
  "resolve_one conditionResolvers context c cond path =
     (case getValueFromPath context path of
        Inl e \<Rightarrow> Inl e
      | Inr v \<Rightarrow>
          (case conditionResolvers c of
             None \<Rightarrow> Inl NotCallable
           | Some resolver \<Rightarrow>
               Inr (resolver v (case map_of cond path of Some x \<Rightarrow> x | None \<Rightarrow> JUndefined))))"

definition conditions_hold :: "ConditionResolver \<Rightarrow> StatementConditions \<Rightarrow> jsval
    \<Rightarrow> error + bool" where
  "conditions_hold conditionResolvers conds context =
     every' (\<lambda>c.
        let cond = (case map_of conds c of Some x \<Rightarrow> x | None \<Rightarrow> [])
        in every' (resolve_one conditionResolvers context c cond) (map fst cond))
       (map fst conds)"

text \<open>\<open>Statement.matches\<close>; an absent argument is \<open>JUndefined\<close> for the context and \<open>None\<close>
  for the resolvers.\<close>

definition matches :: "Statement \<Rightarrow> string \<Rightarrow> string \<Rightarrow> jsval \<Rightarrow> ConditionResolver option
    \<Rightarrow> error + bool" where
  "matches st act res context conditionResolvers =
     (case some' (pattern_matches context act) (action st) of
        Inl e \<Rightarrow> Inl e
      | Inr b1 \<Rightarrow>
          if \<not> b1 then Inr False
          else
            (case some' (pattern_matches context res) (resource st) of
               Inl e \<Rightarrow> Inl e
             | Inr b2 \<Rightarrow>
                 if \<not> b2 then Inr False
                 else
                   (case (conditionResolvers, condition st) of
                      (Some rs, Some conds) \<Rightarrow>
                        if truthy context then conditions_hold rs conds context
                        else Inr True
                    | _ \<Rightarrow> Inr True)))"

section \<open>Notions used in the statements\<close>

text \<open>The text that the loop of \<open>parse\<close> writes for one character, and for a pattern.\<close>

definition wildcard_char :: "char \<Rightarrow> string" where
  "wildcard_char c = (if c = CHR ''*'' then ''[^/]*?'' else [c])"

definition wildcard_source :: "string \<Rightarrow> string" where
  "wildcard_source pat = concat (map wildcard_char pat)"

text \<open>The expression that \<open>new RegExp('$.')\<close> compiles to: the end of the input, then one
  more character.\<close>

definition never_regexp :: rx where
  "never_regexp = RSeq REol (RSeq RAny REmpty)"















section \<open>Path resolution: what the code computes\<close>

text \<open>
  C3. The claim: \<open>getValueFromPath\<close> walks the keys of the path from the context, so that
  the path \<open>k\<close> gives the value under the key \<open>k\<close> and the path \<open>a.b.c\<close> the value at
  \<open>a\<close>, then \<open>b\<close>, then \<open>c\<close>. The code does neither: a path of one key gives the key
  itself, since \<open>reduce\<close> without an initial value never calls the callback, and from the
  third key on the callback looks up the value found so far as a key of the context.
  Only a path of two keys is resolved as the claim says. With no context at all, a path
  of two keys raises.
\<close>

theorem getValueFromPath_one_and_three_keys:
  "getValueFromPath (JObj [(''k'', JStr ''v'')]) ''k'' = Inr (JStr ''k'')
   \<and> getValueFromPath
        (JObj [(''a'', JObj [(''b'', JObj [(''c'', JStr ''v'')])])]) ''a.b.c'' = Inr JUndefined
   \<and> getValueFromPath (JObj [(''a'', JObj [(''b'', JStr ''v'')])]) ''a.b'' = Inr (JStr ''v'')
   \<and> getValueFromPath JUndefined ''a.b'' = Inl NullishBase"
  by (simp add: getValueFromPath_def path_step_def)

section \<open>The leading empty brace group\<close>

text \<open>
  C6. The claim: a pattern that begins with \<open>{}\<close> has the two characters escaped, so that
  \<open>Matcher("{}abc").match("{}abc")\<close> is true. The code escapes them, but \<open>expand\<close> knows no
  escapes: it takes the escaped text apart at the two braces, and the only alternative
  left is a backslash followed by \<open>abc\<close>. The matcher rejects \<open>{}abc\<close>.
\<close>

theorem leading_empty_braces_not_literal:
  "braceExpand ''{}abc'' = [[backslash, backslash] @ ''abc'']
   \<and> matcher_test ''{}abc'' ''{}abc'' = Inr False
   \<and> matcher_test ''{}abc'' (backslash # ''abc'') = Inr True"
  by code_simp

section \<open>The wildcard and the separator\<close>

text \<open>
  C2. The claim: a trailing wildcard does not match a candidate that ends at a separator,
  \<open>Matcher("a/*").match("a/")\<close> is false. The guard \<open>(?=.)\<close> is put once, in front of the
  whole expression, where it only asks the candidate to begin with a character; the
  matcher accepts \<open>a/\<close>.
\<close>

theorem trailing_wildcard_matches_empty_segment:
  "matcher_test ''a/*'' ''a/'' = Inr True
   \<and> matcher_test ''a/*'' ''a/b'' = Inr True
   \<and> matcher_test ''a/*'' ''a/b/c'' = Inr False"
  by code_simp

section \<open>Compiling one alternative\<close>

lemma parse_loop_eq:
  "parse_loop pat (flag, re) = (flag \<or> CHR ''*'' \<in> set pat, re @ wildcard_source pat)"
  by (induction pat arbitrary: flag re) (auto simp: wildcard_source_def wildcard_char_def)

lemma wildcard_source_star_free:
  "CHR ''*'' \<notin> set pat \<Longrightarrow> wildcard_source pat = pat"
  by (induction pat) (auto simp: wildcard_source_def wildcard_char_def)

lemma wildcard_source_Nil_iff: "wildcard_source pat = [] \<longleftrightarrow> pat = []"
  by (cases pat) (auto simp: wildcard_source_def wildcard_char_def)

lemma compile_never: "regexp_compile ''$.'' = Compiled never_regexp"
  by code_simp

lemma parse_too_long: "65536 < length pat \<Longrightarrow> parse flag pat = Inl PatternTooLong"
  by (simp add: parse_def)

lemma parse_literal:
  "pat \<noteq> [] \<Longrightarrow> length pat \<le> 65536 \<Longrightarrow> CHR ''*'' \<notin> set pat
   \<Longrightarrow> parse False pat = Inr (False, AString (unescape pat))"
  by (simp add: parse_def parse_loop_eq)

lemma parse_regexp:
  "pat \<noteq> [] \<Longrightarrow> length pat \<le> 65536 \<Longrightarrow> flag \<or> CHR ''*'' \<in> set pat
   \<Longrightarrow> parse flag pat =
       (case regexp_compile (''^(?=.)'' @ wildcard_source pat @ ''$'') of
          Compiled r \<Rightarrow> Inr (True, ARegExp r)
        | NotModelled \<Rightarrow> Inl Unmodelled
        | SyntaxError \<Rightarrow> Inr (True, ARegExp never_regexp))"
  by (auto simp: parse_def parse_loop_eq compile_never wildcard_source_Nil_iff
           split: compiled.splits)

lemma never_regexp_no_match: "\<not> rx_test never_regexp s"
  by (simp add: rx_test_def never_regexp_def list_ex_iff one_char_def)

lemma parse_all_append:
  "parse_all flag (us @ vs) =
     (case parse_all flag us of
        Inl e \<Rightarrow> Inl e
      | Inr (f, as) \<Rightarrow>
          (case parse_all f vs of
             Inl e \<Rightarrow> Inl e
           | Inr (f', bs) \<Rightarrow> Inr (f', as @ bs)))"
  by (induction us arbitrary: flag) (auto split: sum.splits prod.splits)

lemma parse_flag:
  "parse flag pat = Inr (f, a) \<Longrightarrow> f = (flag \<or> CHR ''*'' \<in> set pat)"
  by (auto simp: parse_def parse_loop_eq Let_def split: if_splits compiled.splits)

lemma parse_all_flag:
  "parse_all flag vs = Inr (f, as) \<Longrightarrow> f = (flag \<or> (\<exists>v\<in>set vs. CHR ''*'' \<in> set v))"
proof (induction vs arbitrary: flag f as)
  case Nil
  then show ?case by simp
next
  case (Cons v vs)
  then show ?case
    by (auto split: sum.splits prod.splits dest!: parse_flag)
qed

section \<open>The special-character flag\<close>

text \<open>
  C10. Within one \<open>Matcher\<close> the flag \<open>hasSpecialCharacter\<close> is set by the first alternative
  that holds a \<open>*\<close> and is never reset. So when the alternatives \<open>us\<close> compiled so far hold
  a \<open>*\<close>, a following alternative \<open>v\<close> without \<open>*\<close> is not kept as a literal: its text goes
  unescaped into an anchored regular expression, whose metacharacters keep their meaning.
  Compiled on its own, or first, the same \<open>v\<close> is an exact-match literal. For example
  \<open>Matcher("{a*,b.c}").match("bXc")\<close> is true, and with the alternatives in the other order
  it is false.
\<close>

theorem special_flag_never_reset:
  assumes "parse_all False us = Inr (f, as)"
    and "list_ex (\<lambda>u. CHR ''*'' \<in> set u) us"
    and "CHR ''*'' \<notin> set v" and "v \<noteq> []" and "length v \<le> 65536"
  shows "f
    \<and> parse_all False (us @ [v]) =
        (case regexp_compile (''^(?=.)'' @ v @ ''$'') of
           Compiled r \<Rightarrow> Inr (True, as @ [ARegExp r])
         | NotModelled \<Rightarrow> Inl Unmodelled
         | SyntaxError \<Rightarrow> Inr (True, as @ [ARegExp never_regexp]))
    \<and> parse_all False [v] = Inr (False, [AString (unescape v)])
    \<and> matcher_test ''{a*,b.c}'' ''bXc'' = Inr True
    \<and> matcher_test ''{b.c,a*}'' ''bXc'' = Inr False"
proof -
  have f: "f"
    using assms(1,2) by (auto dest: parse_all_flag simp: list_ex_iff)
  have p: "parse True v =
        (case regexp_compile (''^(?=.)'' @ v @ ''$'') of
           Compiled r \<Rightarrow> Inr (True, ARegExp r)
         | NotModelled \<Rightarrow> Inl Unmodelled
         | SyntaxError \<Rightarrow> Inr (True, ARegExp never_regexp))"
    using assms(3,4,5) by (simp add: parse_regexp wildcard_source_star_free)
  have a: "parse_all False (us @ [v]) =
        (case regexp_compile (''^(?=.)'' @ v @ ''$'') of
           Compiled r \<Rightarrow> Inr (True, as @ [ARegExp r])
         | NotModelled \<Rightarrow> Inl Unmodelled
         | SyntaxError \<Rightarrow> Inr (True, as @ [ARegExp never_regexp]))"
    using assms(1) f by (simp add: parse_all_append p split: compiled.splits)
  have l: "parse_all False [v] = Inr (False, [AString (unescape v)])"
    using assms(3,4,5) by (simp add: parse_literal)
  have e1: "matcher_test ''{a*,b.c}'' ''bXc'' = Inr True"
    by code_simp
  have e2: "matcher_test ''{b.c,a*}'' ''bXc'' = Inr False"
    by code_simp
  from f a l e1 e2 show ?thesis by blast
qed

theorem special_flag_never_reset_witness:
  "parse_all False [''a*''] =
     Inr (True, [ARegExp (RSeq RBol (RSeq (RLook True (RSeq RAny REmpty))
        (RSeq (RChar CHR ''a'') (RSeq (RStar (RClass True [CChar CHR ''/''])) (RSeq REol REmpty)))))])
   \<and> parse_all False ([''a*''] @ [''b.c'']) =
     Inr (True, [ARegExp (RSeq RBol (RSeq (RLook True (RSeq RAny REmpty))
        (RSeq (RChar CHR ''a'') (RSeq (RStar (RClass True [CChar CHR ''/''])) (RSeq REol REmpty)))))]
        @ [ARegExp (RSeq RBol (RSeq (RLook True (RSeq RAny REmpty))
            (RSeq (RChar CHR ''b'') (RSeq RAny (RSeq (RChar CHR ''c'') (RSeq REol REmpty))))))])
   \<and> parse_all False [''b.c''] = Inr (False, [AString ''b.c''])"
proof -
  have h1: "parse_all False [''a*''] =
     Inr (True, [ARegExp (RSeq RBol (RSeq (RLook True (RSeq RAny REmpty))
        (RSeq (RChar CHR ''a'') (RSeq (RStar (RClass True [CChar CHR ''/''])) (RSeq REol REmpty)))))])"
    by code_simp
  have h2: "list_ex (\<lambda>u. CHR ''*'' \<in> set u) [''a*'']" by simp
  have h3: "CHR ''*'' \<notin> set ''b.c''" by simp
  have h4: "''b.c'' \<noteq> []" by simp
  have h5: "length ''b.c'' \<le> 65536" by simp
  have c: "regexp_compile (''^(?=.)'' @ ''b.c'' @ ''$'') =
     Compiled (RSeq RBol (RSeq (RLook True (RSeq RAny REmpty))
            (RSeq (RChar CHR ''b'') (RSeq RAny (RSeq (RChar CHR ''c'') (RSeq REol REmpty))))))"
    by code_simp
  have u: "unescape ''b.c'' = ''b.c''" by code_simp
  show ?thesis
    using special_flag_never_reset [OF h1 h2 h3 h4 h5] h1 c u by simp
qed

section \<open>Alternatives that are no regular expression\<close>

text \<open>
  C9. When the text that \<open>parse\<close> writes for an alternative is not a regular expression
  (the constructor raises a \<open>SyntaxError\<close>), \<open>parse\<close> does not raise: it returns the
  expression of \<open>new RegExp('$.')\<close>, which no string matches, so \<open>matchOne\<close> is false for
  that alternative, and a \<open>Matcher\<close> whose only alternative it is matches nothing.
\<close>

theorem malformed_alternative_matches_nothing:
  assumes "pat \<noteq> []" and "length pat \<le> 65536" and "flag \<or> CHR ''*'' \<in> set pat"
    and "regexp_compile (''^(?=.)'' @ wildcard_source pat @ ''$'') = SyntaxError"
  shows "parse flag pat = Inr (True, ARegExp never_regexp)
    \<and> (\<forall>s. \<not> matchOne s (ARegExp never_regexp))
    \<and> (CHR ''*'' \<in> set pat \<and> braceExpand (js_trim p) = [pat]
         \<longrightarrow> (\<forall>s. matcher_test p s = Inr False))"
proof -
  have p: "parse flag pat = Inr (True, ARegExp never_regexp)"
    using assms by (simp add: parse_regexp)
  have n: "\<forall>s. \<not> matchOne s (ARegExp never_regexp)"
    by (simp add: never_regexp_no_match)
  have m: "\<forall>s. matcher_test p s = Inr False"
    if st: "CHR ''*'' \<in> set pat" and b: "braceExpand (js_trim p) = [pat]"
  proof -
    have "js_trim p \<noteq> []"
      using b assms(1) by (auto simp: braceExpand_def)
    moreover have "parse False pat = Inr (True, ARegExp never_regexp)"
      using assms st by (simp add: parse_regexp)
    ultimately show ?thesis
      using b by (simp add: matcher_test_def new_Matcher_def match_def never_regexp_no_match)
  qed
  from p n m show ?thesis by blast
qed

theorem malformed_alternative_matches_nothing_witness:
  "parse False ''(*'' = Inr (True, ARegExp never_regexp)
   \<and> matcher_test ''(*'' ''(*'' = Inr False
   \<and> matcher_test ''(*'' ''(x'' = Inr False"
proof -
  have h1: "''(*'' \<noteq> []" by simp
  have h2: "length ''(*'' \<le> 65536" by simp
  have h3: "False \<or> CHR ''*'' \<in> set ''(*''" by simp
  have h4: "regexp_compile (''^(?=.)'' @ wildcard_source ''(*'' @ ''$'') = SyntaxError"
    by code_simp
  have h5: "braceExpand (js_trim ''(*'') = [''(*'']"
    by code_simp
  show ?thesis
    using malformed_alternative_matches_nothing [OF h1 h2 h3 h4, of "''(*''"] h5 by simp
qed

section \<open>The length guard\<close>

lemma parse_error_cases:
  "parse flag pat = Inl e \<Longrightarrow> e = PatternTooLong \<or> e = Unmodelled"
  by (auto simp: parse_def Let_def split: if_splits prod.splits compiled.splits)

lemma parse_all_long_member:
  "alt \<in> set vs \<Longrightarrow> 65536 < length alt
   \<Longrightarrow> parse_all flag vs = Inl PatternTooLong \<or> parse_all flag vs = Inl Unmodelled"
proof (induction vs arbitrary: flag)
  case Nil
  then show ?case by simp
next
  case (Cons v vs)
  show ?case
  proof (cases "parse flag v")
    case (Inl e)
    then show ?thesis
      using parse_error_cases [OF Inl] by auto
  next
    case (Inr r)
    then have "alt \<noteq> v"
      using Cons.prems(2) by (auto simp: parse_too_long)
    then have "alt \<in> set vs"
      using Cons.prems(1) by simp
    then show ?thesis
      using Cons.IH [OF _ Cons.prems(2), of "fst r"] Inr by (cases r) auto
  qed
qed

lemma new_Matcher_long_member:
  assumes "alt \<in> set (braceExpand (js_trim p))" and "65536 < length alt"
    and "new_Matcher p \<noteq> Inl Unmodelled"
  shows "new_Matcher p = Inl PatternTooLong"
  using parse_all_long_member [OF assms(1,2), of False] assms(3)
  by (auto simp: new_Matcher_def Let_def)

lemma some'_raises:
  "list_all (\<lambda>x. f x = Inr False) xs \<Longrightarrow> f y = Inl e \<Longrightarrow> some' f (xs @ y # ys) = Inl e"
  by (induction xs) auto

lemma no_brace_no_group: "CHR ''{'' \<notin> set s \<Longrightarrow> \<not> has_brace_group s"
  by (induction s) auto

lemma js_trim_replicate:
  "\<not> white_space c \<Longrightarrow> js_trim (replicate n c) = replicate n c"
  by (cases n) (simp_all add: js_trim_def replicate_app_Cons_same flip: replicate_Suc)

text \<open>
  C8. An alternative of more than 65536 characters makes \<open>parse\<close> raise the size error.
  The error leaves the constructor, \<open>new Matcher(p)\<close> and \<open>new Matcher(p).match(str)\<close>,
  for every pattern \<open>p\<close> that expands to such an alternative, and it leaves
  \<open>Statement.matches\<close> whenever the evaluation reaches that pattern: as an action pattern
  when no action pattern before it matches, as a resource pattern when some action
  pattern matches and no resource pattern before it does. No call returns false in its
  place. (The hypothesis on \<open>new_Matcher\<close> keeps the alternatives compiled before the
  long one inside the modelled regular expressions.) A pattern of 70000 characters raises
  the error.
\<close>

theorem oversized_alternative_raises:
  assumes "65536 < length alt"
  shows "parse flag alt = Inl PatternTooLong
    \<and> (alt \<in> set (braceExpand (js_trim p)) \<and> new_Matcher p \<noteq> Inl Unmodelled
         \<longrightarrow> new_Matcher p = Inl PatternTooLong \<and> matcher_test p str = Inl PatternTooLong)
    \<and> (alt \<in> set (braceExpand (js_trim p)) \<and> new_Matcher p \<noteq> Inl Unmodelled
         \<and> applyContext a context = Inr p
         \<and> action st = as1 @ a # as2
         \<and> list_all (\<lambda>x. pattern_matches context act x = Inr False) as1
         \<longrightarrow> matches st act res context rs = Inl PatternTooLong)
    \<and> (alt \<in> set (braceExpand (js_trim p)) \<and> new_Matcher p \<noteq> Inl Unmodelled
         \<and> applyContext a context = Inr p
         \<and> some' (pattern_matches context act) (action st) = Inr True
         \<and> resource st = as1 @ a # as2
         \<and> list_all (\<lambda>x. pattern_matches context res x = Inr False) as1
         \<longrightarrow> matches st act res context rs = Inl PatternTooLong)
    \<and> matcher_test (replicate 70000 CHR ''a'') str = Inl PatternTooLong"
proof -
  have a: "parse flag alt = Inl PatternTooLong"
    using assms by (rule parse_too_long)
  have b: "new_Matcher p = Inl PatternTooLong \<and> matcher_test p s = Inl PatternTooLong"
    if "alt \<in> set (braceExpand (js_trim p))" and "new_Matcher p \<noteq> Inl Unmodelled" for s
    using new_Matcher_long_member [OF that(1) assms that(2)] by (simp add: matcher_test_def)
  have c: "pattern_matches context s a = Inl PatternTooLong"
    if "alt \<in> set (braceExpand (js_trim p))" and "new_Matcher p \<noteq> Inl Unmodelled"
      and "applyContext a context = Inr p" for s
    using b [OF that(1,2)] that(3) by (simp add: pattern_matches_def)
  have d: "matches st act res context rs = Inl PatternTooLong"
    if "alt \<in> set (braceExpand (js_trim p))" and "new_Matcher p \<noteq> Inl Unmodelled"
      and "applyContext a context = Inr p" and "action st = as1 @ a # as2"
      and "list_all (\<lambda>x. pattern_matches context act x = Inr False) as1"
    using some'_raises [OF that(5) c [OF that(1,2,3)], of as2] that(4)
    by (simp add: matches_def)
  have e: "matches st act res context rs = Inl PatternTooLong"
    if "alt \<in> set (braceExpand (js_trim p))" and "new_Matcher p \<noteq> Inl Unmodelled"
      and "applyContext a context = Inr p"
      and "some' (pattern_matches context act) (action st) = Inr True"
      and "resource st = as1 @ a # as2"
      and "list_all (\<lambda>x. pattern_matches context res x = Inr False) as1"
    using some'_raises [OF that(6) c [OF that(1,2,3)], of as2] that(4,5)
    by (simp add: matches_def)
  have f: "matcher_test (replicate 70000 CHR ''a'') str = Inl PatternTooLong"
    by (simp add: matcher_test_def new_Matcher_def js_trim_replicate white_space_def
        braceExpand_def no_brace_no_group parse_too_long)
  from a b c d e f show ?thesis by blast
qed

theorem oversized_alternative_raises_witness:
  "65536 < length (replicate 70000 CHR ''a'')
   \<and> parse False (replicate 70000 CHR ''a'') = Inl PatternTooLong
   \<and> new_Matcher (replicate 70000 CHR ''a'') = Inl PatternTooLong
   \<and> matches \<lparr> effect = Allow, resource = [''*''],
                action = [''read'', replicate 70000 CHR ''a''], condition = None \<rparr>
        ''write'' ''x'' JUndefined None = Inl PatternTooLong
   \<and> matches \<lparr> effect = Allow, resource = [replicate 70000 CHR ''a''],
                action = [''read''], condition = None \<rparr>
        ''read'' ''x'' JUndefined None = Inl PatternTooLong"
proof -
  let ?p = "replicate 70000 CHR ''a''"
  let ?st1 = "\<lparr> effect = Allow, resource = [''*''],
                action = [''read'', ?p], condition = None \<rparr>"
  let ?st2 = "\<lparr> effect = Allow, resource = [?p], action = [''read''], condition = None \<rparr>"
  have h: "65536 < length ?p" by simp
  have m: "?p \<in> set (braceExpand (js_trim ?p))"
    by (simp add: js_trim_replicate white_space_def braceExpand_def no_brace_no_group)
  have n: "new_Matcher ?p = Inl PatternTooLong"
    by (simp add: new_Matcher_def js_trim_replicate white_space_def
        braceExpand_def no_brace_no_group parse_too_long)
  have n': "new_Matcher ?p \<noteq> Inl Unmodelled"
    by (simp add: n)
  have ac: "applyContext ?p JUndefined = Inr ?p"
    by (simp add: applyContext_def)
  have r1: "pattern_matches JUndefined ''write'' ''read'' = Inr False"
    by code_simp
  have r2: "pattern_matches JUndefined ''read'' ''read'' = Inr True"
    by code_simp
  have a1: "action ?st1 = [''read''] @ ?p # []" by simp
  have l1: "list_all (\<lambda>x. pattern_matches JUndefined ''write'' x = Inr False) [''read'']"
    by (simp add: r1)
  have s2: "some' (pattern_matches JUndefined ''read'') (action ?st2) = Inr True"
    by (simp add: r2)
  have a2: "resource ?st2 = [] @ ?p # []" by simp
  have l2: "list_all (\<lambda>x. pattern_matches JUndefined ''x'' x = Inr False) []"
    by simp
  note t = oversized_alternative_raises [OF h]
  have c1: "matches ?st1 ''write'' ''x'' JUndefined None = Inl PatternTooLong"
    using t [of False ?p "''x''" ?p JUndefined ?st1 "[''read'']" "[]" "''write''" "''x''" None]
      m n' ac a1 l1 by blast
  have c2: "matches ?st2 ''read'' ''x'' JUndefined None = Inl PatternTooLong"
    using t [of False ?p "''x''" ?p JUndefined ?st2 "[]" "[]" "''read''" "''x''" None]
      m n' ac s2 a2 l2 by blast
  have c0: "parse False ?p = Inl PatternTooLong"
    using t [of False ?p "''x''" ?p JUndefined ?st2 "[]" "[]" "''read''" "''x''" None] by blast
  from h c0 n c1 c2 show ?thesis by blast
qed

section \<open>Brace expansion is a cross product\<close>

lemma index_in_absent: "c \<notin> set xs \<Longrightarrow> index_in c xs n = - 1"
  by (induction xs arbitrary: n) auto

lemma index_in_first:
  "c \<notin> set xs \<Longrightarrow> index_in c (xs @ c # ys) n = int (n + length xs)"
  by (induction xs arbitrary: n) auto

lemma indexOf_absent: "c \<notin> set (drop k str) \<Longrightarrow> indexOf str c k = - 1"
  by (simp add: indexOf_def index_in_absent)

lemma indexOf_first:
  "c \<notin> set xs \<Longrightarrow> indexOf (ws @ xs @ c # ys) c (length ws) = int (length ws + length xs)"
  by (simp add: indexOf_def index_in_first)

lemma indexOf_first0:
  "c \<notin> set xs \<Longrightarrow> indexOf (xs @ c # ys) c 0 = int (length xs)"
  using indexOf_first [of c xs "[]" ys] by simp

lemma range'_group:
  assumes "a \<notin> set p" and "b \<notin> set bd"
  shows "range' a b (p @ a # bd @ b # q) = (int (length p), int (length p + 1 + length bd))"
proof -
  have l: "indexOf (p @ a # bd @ b # q) a 0 = int (length p)"
    using assms(1) by (rule indexOf_first0)
  have "indexOf ((p @ [a]) @ bd @ b # q) b (length (p @ [a])) = int (length (p @ [a]) + length bd)"
    using assms(2) by (rule indexOf_first)
  then have r: "indexOf (p @ a # bd @ b # q) b (Suc (length p)) = int (length p + 1 + length bd)"
    by simp
  show ?thesis
    by (simp add: range'_def l r Let_def nat_add_distrib)
qed

lemma range'_none:
  assumes "a \<notin> set p" and "b \<notin> set r"
  shows "range' a b (p @ r) = (- 1, - 1)"
proof (cases "a \<in> set r")
  case False
  then have "indexOf (p @ r) a 0 = - 1"
    using assms(1) by (simp add: indexOf_absent)
  then show ?thesis
    by (simp add: range'_def Let_def)
next
  case True
  then obtain r1 r2 where r: "r = r1 @ a # r2" and n: "a \<notin> set r1"
    by (meson split_list_first)
  have l: "indexOf (p @ r) a 0 = int (length (p @ r1))"
    using indexOf_first0 [of a "p @ r1" r2] assms(1) n r by simp
  have "b \<notin> set (drop (Suc (length (p @ r1))) (p @ r))"
    using assms(2) r by simp
  then have "indexOf (p @ r) b (Suc (length (p @ r1))) = - 1"
    by (rule indexOf_absent)
  then show ?thesis
    by (simp add: range'_def l Let_def nat_add_distrib)
qed

lemma balanced_group:
  assumes "a \<notin> set p" and "b \<notin> set bd"
  shows "balanced a b (p @ a # bd @ b # q) =
     \<lparr> start = int (length p), end' = int (length p + 1 + length bd),
       pre = p, body = bd, post = q \<rparr>"
proof -
  have n: "nat (1 + (int (length p) + int (length bd))) = Suc (length p + length bd)"
    by linarith
  show ?thesis
    by (simp add: balanced_def range'_group [OF assms] slice_def slice_from_def n)
qed

lemma balanced_none:
  assumes "a \<notin> set p" and "b \<notin> set r"
  shows "start (balanced a b (p @ r)) = - 1"
  by (simp add: balanced_def range'_none [OF assms])

lemma expand_none:
  "CHR ''{'' \<notin> set p \<Longrightarrow> CHR ''}'' \<notin> set r \<Longrightarrow> expand (p @ r) isTop = [p @ r]"
  by (subst expand.simps) (simp add: balanced_none)

lemma expand_Nil: "expand [] isTop = [[]]"
  using expand_none [of "[]" "[]"] by simp

lemma concat_if_filter:
  "concat (map (\<lambda>x. if P (f x) then [f x] else []) xs) = filter P (map f xs)"
  by (induction xs) auto

lemma cross_product_filter:
  "concat (map (\<lambda>part. concat (map (\<lambda>postPart.
       if \<not> isTop \<or> p @ part @ postPart \<noteq> [] then [p @ part @ postPart] else []) posts)) parts)
   = filter (\<lambda>e. \<not> isTop \<or> e \<noteq> [])
       (concat (map (\<lambda>part. map (\<lambda>postPart. p @ part @ postPart) posts) parts))"
proof (induction parts)
  case Nil
  then show ?case by simp
next
  case (Cons part parts)
  have "concat (map (\<lambda>postPart.
       if \<not> isTop \<or> p @ part @ postPart \<noteq> [] then [p @ part @ postPart] else []) posts)
     = filter (\<lambda>e. \<not> isTop \<or> e \<noteq> []) (map (\<lambda>postPart. p @ part @ postPart) posts)"
    by (rule concat_if_filter [of "\<lambda>e. \<not> isTop \<or> e \<noteq> []" "\<lambda>postPart. p @ part @ postPart"])
  then show ?case
    using Cons.IH by simp
qed

lemma expand_group:
  assumes "CHR ''{'' \<notin> set p" and "CHR ''}'' \<notin> set bd"
  shows "expand (p @ CHR ''{'' # bd @ CHR ''}'' # q) isTop =
     (if ends_with_dollar p then [p @ CHR ''{'' # bd @ CHR ''}'' # q]
      else filter (\<lambda>e. \<not> isTop \<or> e \<noteq> [])
             (concat (map (\<lambda>part. map (\<lambda>postPart. p @ part @ postPart) (expand q False))
                (split_on CHR '','' bd))))"
proof -
  have q: "(if q \<noteq> [] then expand q False else [[]]) = expand q False"
    by (simp add: expand_Nil)
  have b: "(if bd = [] then [[]] else split_on CHR '','' bd) = split_on CHR '','' bd"
    by simp
  have "expand (p @ CHR ''{'' # bd @ CHR ''}'' # q) isTop =
     (if ends_with_dollar p then [p @ CHR ''{'' # bd @ CHR ''}'' # q]
      else concat (map (\<lambda>part. concat (map (\<lambda>postPart.
             if \<not> isTop \<or> p @ part @ postPart \<noteq> [] then [p @ part @ postPart] else [])
               (expand q False))) (split_on CHR '','' bd)))"
    by (subst expand.simps)
       (simp only: balanced_group [OF assms] Let_def Balance.select_convs of_nat_less_0_iff
          simp_thms q b)
  then show ?thesis
    by (simp only: cross_product_filter)
qed

text \<open>
  C4, as amended. Let the pattern be \<open>p{b}q\<close>, where \<open>{\<close> is its first opening brace and
  \<open>}\<close> the first closing brace after it. When \<open>p\<close> does not end with a dollar sign, the
  alternatives are \<open>p + part + postPart\<close> for every part of \<open>b\<close> between commas and every
  alternative \<open>postPart\<close> of the rest \<open>q\<close> (expanded as a nested level), in this order; at
  the top level the empty results are dropped. When \<open>p\<close> ends with a dollar sign the
  braces belong to a placeholder and the whole pattern is the only alternative, as it is
  when the pattern has no opening brace, or no closing brace after the first opening one.
  So \<open>Matcher("a{b,c}d")\<close> matches \<open>abd\<close> and \<open>acd\<close> and not \<open>aed\<close>.

  The claim as stated, the cross product for every pattern of that form, fails for
  \<open>${a,b}\<close>, which stays whole, and for \<open>{,}\<close> at the top level, which has no alternative
  left.
\<close>

theorem expand_cross_product:
  assumes "CHR ''{'' \<notin> set p" and "CHR ''}'' \<notin> set b"
  shows "(\<not> ends_with_dollar p \<longrightarrow>
            expand (p @ ''{'' @ b @ ''}'' @ q) isTop =
              filter (\<lambda>e. \<not> isTop \<or> e \<noteq> [])
                (concat (map (\<lambda>part. map (\<lambda>postPart. p @ part @ postPart) (expand q False))
                   (split_on CHR '','' b))))
    \<and> (ends_with_dollar p \<longrightarrow>
            expand (p @ ''{'' @ b @ ''}'' @ q) isTop = [p @ ''{'' @ b @ ''}'' @ q])
    \<and> expand (p @ b) isTop = [p @ b]
    \<and> matcher_test ''a{b,c}d'' ''abd'' = Inr True
    \<and> matcher_test ''a{b,c}d'' ''acd'' = Inr True
    \<and> matcher_test ''a{b,c}d'' ''aed'' = Inr False"
proof -
  have g: "expand (p @ ''{'' @ b @ ''}'' @ q) isTop =
     (if ends_with_dollar p then [p @ ''{'' @ b @ ''}'' @ q]
      else filter (\<lambda>e. \<not> isTop \<or> e \<noteq> [])
             (concat (map (\<lambda>part. map (\<lambda>postPart. p @ part @ postPart) (expand q False))
                (split_on CHR '','' b))))"
    using expand_group [OF assms, of q isTop] by simp
  have n: "expand (p @ b) isTop = [p @ b]"
    using assms by (rule expand_none)
  have e1: "matcher_test ''a{b,c}d'' ''abd'' = Inr True"
    by code_simp
  have e2: "matcher_test ''a{b,c}d'' ''acd'' = Inr True"
    by code_simp
  have e3: "matcher_test ''a{b,c}d'' ''aed'' = Inr False"
    by code_simp
  from g n e1 e2 e3 show ?thesis by simp
qed

theorem expand_cross_product_witness:
  "expand ''a{b,c}d'' True = [''abd'', ''acd'']
   \<and> expand ''x{,y}'' False = [''x'', ''xy'']
   \<and> expand ''${a,b}'' True = [''${a,b}'']
   \<and> expand ''ab}c'' True = [''ab}c'']"
proof -
  have d: "expand ''d'' False = [''d'']" by code_simp
  have n: "expand [] False = [[]]" by code_simp
  have c1: "expand ''a{b,c}d'' True = [''abd'', ''acd'']"
    using expand_cross_product [of "''a''" "''b,c''" "''d''" True] d
    by (simp add: ends_with_dollar_def)
  have c2: "expand ''x{,y}'' False = [''x'', ''xy'']"
    using expand_cross_product [of "''x''" "'',y''" "[]" False] n
    by (simp add: ends_with_dollar_def)
  have c3: "expand ''${a,b}'' True = [''${a,b}'']"
    using expand_cross_product [of "''$''" "''a,b''" "[]" True]
    by (simp add: ends_with_dollar_def)
  have c4: "expand ''ab}c'' True = [''ab}c'']"
    using expand_cross_product [of "''ab}c''" "[]" "[]" True]
    by simp
  from c1 c2 c3 c4 show ?thesis by simp
qed

theorem expand_cross_product_counterexample:
  "expand ''${a,b}'' True = [''${a,b}'']
   \<and> matcher_test ''${a,b}'' ''$a'' = Inr False
   \<and> matcher_test ''${a,b}'' ''${a,b}'' = Inr True
   \<and> expand ''{,}'' True = []"
  by code_simp

section \<open>Template interpolation\<close>




















section \<open>Statement.matches\<close>













section \<open>Wildcard compilation of plain patterns\<close>



















end
